theory Spec2Isabelle
  imports Complex_Main "HOL-Library.AList" "HOL-Library.Char_ord" "HOL-Library.List_Lexorder"
begin

section \<open>Strings and numbers\<close>

text \<open>
  The client is TypeScript. A JavaScript string is modelled as a \<^typ>\<open>string\<close>, a list of
  8-bit code units (the Latin-1 range of UTF-16); a JavaScript number as a \<^typ>\<open>real\<close>
  where it is a score or a weight, as an \<^typ>\<open>int\<close> where it is a time in milliseconds,
  and as a \<^typ>\<open>nat\<close> where it is a count. Rounding of IEEE doubles is not modelled.
\<close>

text \<open>The class \<^verbatim>\<open>\w\<close> of a JavaScript regular expression: \<^verbatim>\<open>[A-Za-z0-9_]\<close>.\<close>

definition isWordChar :: "char \<Rightarrow> bool" where
  "isWordChar c =
     (let n = (of_char c :: nat)
      in (48 \<le> n \<and> n \<le> 57) \<or> (65 \<le> n \<and> n \<le> 90) \<or> n = 95 \<or> (97 \<le> n \<and> n \<le> 122))"

text \<open>The class \<^verbatim>\<open>\s\<close> restricted to 8-bit code units: tab, line feed, vertical tab,
  form feed, carriage return, space and the no-break space.\<close>

definition isSpaceChar :: "char \<Rightarrow> bool" where
  "isSpaceChar c = ((of_char c :: nat) \<in> {9, 10, 11, 12, 13, 32, 160})"

text \<open>\<^verbatim>\<open>String.prototype.toLowerCase\<close> on one 8-bit code unit: the ASCII capitals and the
  Latin-1 capitals (all of 0xC0-0xDE but the multiplication sign) move up by 32.\<close>

definition toLowerChar :: "char \<Rightarrow> char" where
  "toLowerChar c =
     (let n = (of_char c :: nat)
      in if (65 \<le> n \<and> n \<le> 90) \<or> (192 \<le> n \<and> n \<le> 222 \<and> n \<noteq> 215)
         then char_of (n + 32) else c)"

definition toLowerCase :: "string \<Rightarrow> string" where
  "toLowerCase text = map toLowerChar text"

text \<open>\<^verbatim>\<open>s.split(re)\<close> for a regular expression \<^verbatim>\<open>[...]+\<close> over a character class \<open>sep\<close>:
  the pieces between maximal runs of separators. A separator at the start or at the end
  leaves an empty piece there, and the empty string splits into one empty piece.\<close>

fun splitRuns :: "(char \<Rightarrow> bool) \<Rightarrow> string \<Rightarrow> string \<Rightarrow> string list"
  and skipRun :: "(char \<Rightarrow> bool) \<Rightarrow> string \<Rightarrow> string list" where
  "splitRuns sep cur [] = [cur]"
| "splitRuns sep cur (c # cs) =
     (if sep c then cur # skipRun sep cs else splitRuns sep (cur @ [c]) cs)"
| "skipRun sep [] = [[]]"
| "skipRun sep (c # cs) = (if sep c then skipRun sep cs else splitRuns sep [c] cs)"

definition trim :: "string \<Rightarrow> string" where
  "trim s = rev (dropWhile isSpaceChar (rev (dropWhile isSpaceChar s)))"

text \<open>\<^verbatim>\<open>s.substring(0, n)\<close> is \<^term>\<open>take n s\<close>; \<^verbatim>\<open>parts.join(sep)\<close>:\<close>

fun join :: "string \<Rightarrow> string list \<Rightarrow> string" where
  "join sep [] = []"
| "join sep [x] = x"
| "join sep (x # y # ys) = x @ sep @ join sep (y # ys)"

section \<open>CyberneticLocalRAG: the local TF-IDF engine\<close>

text \<open>The methods \<^verbatim>\<open>index\<close>, \<^verbatim>\<open>ask\<close> and \<^verbatim>\<open>reset\<close> of the class are \<open>rag_index\<close>, \<open>rag_ask\<close> and
  \<open>rag_reset\<close> below; \<open>ask\<close> is kept for the operation of the client. The fields \<^verbatim>\<open>id\<close>,
  \<^verbatim>\<open>title\<close> and \<^verbatim>\<open>content\<close> of an indexed document carry the prefix \<open>idx_\<close>.\<close>

record CachedDocument =
  doc_id :: string
  title :: string
  content :: string
  updatedAt :: string

text \<open>A JavaScript \<^verbatim>\<open>Map<string, number>\<close> keeps its keys in insertion order: an association
  list with distinct keys, read with \<^const>\<open>map_of\<close> and written with \<^const>\<open>AList.update\<close>
  (which keeps the place of a key that is already there and appends a new one).\<close>

type_synonym 'v jsmap = "(string \<times> 'v) list"

record IndexedDocument =
  idx_id :: string
  idx_title :: string
  idx_content :: string
  tokens :: "string list"
  tfidf :: "real jsmap"

record CyberneticLocalRAG =
  documents :: "IndexedDocument list"
  idf :: "real jsmap"
  indexed :: bool

record RAGSource =
  rs_title :: string
  rs_snippet :: string
  rs_score :: real

record LocalRAGResult =
  answer :: string
  rag_sources :: "RAGSource list"
  topScore :: real

definition stopWords :: "string list" where
  "stopWords =
     [''the'', ''a'', ''an'', ''and'', ''or'', ''but'', ''in'', ''on'', ''at'', ''to'', ''for'',
      ''of'', ''with'', ''by'', ''from'', ''up'', ''about'', ''into'', ''through'', ''during'',
      ''is'', ''are'', ''was'', ''were'', ''be'', ''been'', ''being'', ''have'', ''has'', ''had'',
      ''do'', ''does'', ''did'', ''will'', ''would'', ''could'', ''should'', ''may'', ''might'',
      ''this'', ''that'', ''these'', ''those'', ''it'', ''its'', ''they'', ''them'', ''their'',
      ''what'', ''which'', ''who'', ''whom'', ''when'', ''where'', ''why'', ''how'',
      ''all'', ''each'', ''every'', ''both'', ''few'', ''more'', ''most'', ''other'', ''some'',
      ''such'', ''no'', ''not'', ''only'', ''same'', ''so'', ''than'', ''too'', ''very'']"

definition isStopWord :: "string \<Rightarrow> bool" where
  "isStopWord word = (word \<in> set stopWords)"

text \<open>\<^verbatim>\<open>text.replace(/[^\w\s]/g, ' ')\<close>\<close>

definition replaceNonWord :: "string \<Rightarrow> string" where
  "replaceNonWord text = map (\<lambda>c. if isWordChar c \<or> isSpaceChar c then c else CHR '' '') text"

definition tokenize :: "string \<Rightarrow> string list" where
  "tokenize text =
     filter (\<lambda>token. length token > 2 \<and> \<not> isStopWord token)
       (splitRuns isSpaceChar [] (replaceNonWord (toLowerCase text)))"

text \<open>The tokenizer as the specification words it: lower-case, every character that is
  not alphanumeric becomes a space, split on whitespace, drop the tokens of length at
  most 2 and the stop words.\<close>

definition isAlnum :: "char \<Rightarrow> bool" where
  "isAlnum c =
     (let n = (of_char c :: nat)
      in (48 \<le> n \<and> n \<le> 57) \<or> (65 \<le> n \<and> n \<le> 90) \<or> (97 \<le> n \<and> n \<le> 122))"

definition tokenize_spec :: "string \<Rightarrow> string list" where
  "tokenize_spec text =
     filter (\<lambda>token. length token > 2 \<and> \<not> isStopWord token)
       (splitRuns isSpaceChar []
          (map (\<lambda>c. if isAlnum c then c else CHR '' '') (toLowerCase text)))"

text \<open>The same with the underscore kept, as \<^verbatim>\<open>\w\<close> keeps it.\<close>

definition tokenize_underscore :: "string \<Rightarrow> string list" where
  "tokenize_underscore text =
     filter (\<lambda>token. length token > 2 \<and> \<not> isStopWord token)
       (splitRuns isSpaceChar []
          (map (\<lambda>c. if isAlnum c \<or> c = CHR ''_'' then c else CHR '' '') (toLowerCase text)))"

text \<open>\<^verbatim>\<open>v || d\<close> on a number that may be undefined: the default replaces undefined and 0.\<close>

definition orElse :: "real option \<Rightarrow> real \<Rightarrow> real" where
  "orElse v d = (case v of None \<Rightarrow> d | Some x \<Rightarrow> if x = 0 then d else x)"

text \<open>\<^verbatim>\<open>Math.max(...xs)\<close>; \<open>None\<close> stands for the \<^verbatim>\<open>-Infinity\<close> of no argument.\<close>

fun mathMax :: "real list \<Rightarrow> real option" where
  "mathMax [] = None"
| "mathMax (x # xs) = (case mathMax xs of None \<Rightarrow> Some x | Some m \<Rightarrow> Some (max x m))"

text \<open>\<^verbatim>\<open>new Set(xs)\<close>, in insertion order: the first occurrence of each element.\<close>

definition newSet :: "'a list \<Rightarrow> 'a list" where
  "newSet xs = rev (remdups (rev xs))"

text \<open>\<^verbatim>\<open>freq.set(token, (freq.get(token) || 0) + 1)\<close>, the step of both counting loops.\<close>

definition countToken :: "string \<Rightarrow> real jsmap \<Rightarrow> real jsmap" where
  "countToken token freq = AList.update token (orElse (map_of freq token) 0 + 1) freq"

definition computeTermFrequency :: "string list \<Rightarrow> real jsmap" where
  "computeTermFrequency toks =
     (let freq = fold countToken toks []
      in case mathMax (map snd freq) of
           None \<Rightarrow> freq
         | Some maxFreq \<Rightarrow>
             if maxFreq > 0 then map (\<lambda>(term, f). (term, f / maxFreq)) freq else freq)"

text \<open>The TF-IDF vector of a token list under an IDF table, the loop that \<^verbatim>\<open>index\<close> runs on
  every document and \<^verbatim>\<open>ask\<close> on the query: a term the table does not hold weighs 1.\<close>

definition tfidfVector :: "real jsmap \<Rightarrow> string list \<Rightarrow> real jsmap" where
  "tfidfVector idfTable toks =
     map (\<lambda>(term, tf). (term, tf * orElse (map_of idfTable term) 1)) (computeTermFrequency toks)"

definition cosineSimilarity :: "real jsmap \<Rightarrow> real jsmap \<Rightarrow> real" where
  "cosineSimilarity vec1 vec2 =
     (let dotProduct = (\<Sum>(term, val1) \<leftarrow> vec1. val1 * orElse (map_of vec2 term) 0);
          norm1 = (\<Sum>(term, val1) \<leftarrow> vec1. val1 * val1);
          norm2 = (\<Sum>val \<leftarrow> map snd vec2. val * val)
      in if norm1 = 0 \<or> norm2 = 0 then 0 else dotProduct / (sqrt norm1 * sqrt norm2))"

definition isIndexed :: "CyberneticLocalRAG \<Rightarrow> bool" where
  "isIndexed rag = (indexed rag \<and> length (documents rag) > 0)"

definition addDocFreq :: "string list \<Rightarrow> real jsmap \<Rightarrow> real jsmap" where
  "addDocFreq uniqueTokens docFreq = fold countToken uniqueTokens docFreq"

text \<open>\<^verbatim>\<open>index(documents)\<close> replaces every field of the engine, so the model takes no
  previous state.\<close>

definition rag_index :: "CachedDocument list \<Rightarrow> CyberneticLocalRAG" where
  "rag_index docs =
     (let docFreq = fold (\<lambda>doc df. addDocFreq (newSet (tokenize (content doc))) df) docs [];
          stored = map (\<lambda>doc. \<lparr>idx_id = doc_id doc, idx_title = title doc,
                                idx_content = content doc, tokens = tokenize (content doc),
                                tfidf = []\<rparr>) docs;
          N = real (length docs);
          idf' = map (\<lambda>(term, df). (term, ln ((N + 1) / (df + 1)) + 1)) docFreq;
          documents' = map (\<lambda>doc. doc\<lparr>tfidf := tfidfVector idf' (tokens doc)\<rparr>) stored
      in \<lparr>documents = documents', idf = idf', indexed = True\<rparr>)"

definition rag_reset :: "CyberneticLocalRAG" where
  "rag_reset = \<lparr>documents = [], idf = [], indexed = False\<rparr>"

definition isSentenceEnd :: "char \<Rightarrow> bool" where
  "isSentenceEnd c = (c \<in> {CHR ''.'', CHR ''!'', CHR ''?''})"

text \<open>\<^verbatim>\<open>Array.prototype.sort\<close> is stable; with the comparator \<^verbatim>\<open>b.score - a.score\<close> it is
  the stable sort by descending score, here \<^const>\<open>sort_key\<close> on the negated score.\<close>

definition extractRelevantSnippet :: "string \<Rightarrow> string list \<Rightarrow> string" where
  "extractRelevantSnippet cont queryTokens =
     (let sentences = filter (\<lambda>s. length (trim s) > 0) (splitRuns isSentenceEnd [] cont);
          scored = map (\<lambda>sentence.
                     (trim sentence,
                      length (filter (\<lambda>qt. qt \<in> set (tokenize sentence)) queryTokens))) sentences;
          ranked = sort_key (\<lambda>s. - int (snd s)) scored;
          topSentences = filter (\<lambda>s. snd s > 0) (take 3 ranked)
      in if topSentences = [] then take 300 cont @ ''...''
         else join ''. '' (map fst topSentences) @ ''.'')"

text \<open>The scores that \<^verbatim>\<open>ask\<close> computes before it sorts them: every indexed document
  with its cosine similarity to the query, in the order of the corpus.\<close>

definition documentScores :: "string \<Rightarrow> CyberneticLocalRAG \<Rightarrow> (IndexedDocument \<times> real) list" where
  "documentScores query rag =
     (let queryTfidf = tfidfVector (idf rag) (tokenize query)
      in map (\<lambda>doc. (doc, cosineSimilarity queryTfidf (tfidf doc))) (documents rag))"

definition rag_ask :: "string \<Rightarrow> CyberneticLocalRAG \<Rightarrow> LocalRAGResult" where
  "rag_ask query rag =
     (if \<not> indexed rag \<or> length (documents rag) = 0
      then \<lparr>answer = ''I don't have any information available offline.'',
            rag_sources = [], topScore = 0\<rparr>
      else
        let scores = sort_key (\<lambda>r. - snd r) (documentScores query rag);
            topResults = filter (\<lambda>r. snd r > 1 / 10) (take 3 scores)
        in case topResults of
             [] \<Rightarrow> \<lparr>answer = ''I couldn't find relevant information for your question in my offline data.'',
                    rag_sources = [],
                    topScore = (case scores of [] \<Rightarrow> 0 | r # _ \<Rightarrow> snd r)\<rparr>
           | best # _ \<Rightarrow>
               \<lparr>answer = extractRelevantSnippet (idx_content (fst best)) (tokenize query),
                rag_sources = map (\<lambda>r. \<lparr>rs_title = idx_title (fst r),
                                          rs_snippet = take 200 (idx_content (fst r)) @ ''...'',
                                          rs_score = snd r\<rparr>) topResults,
                topScore = snd best\<rparr>)"

section \<open>CyberneticCache: the document cache\<close>

text \<open>What a JavaScript \<^verbatim>\<open>throw\<close> carries: an \<^verbatim>\<open>Error\<close> with its message, or a value that is
  no \<^verbatim>\<open>Error\<close> (\<^verbatim>\<open>throw null\<close>). A computation that can throw returns \<open>exn + 'a\<close>.\<close>

datatype exn = Error string | NonError

datatype StorageKind = indexeddb | localstorage

text \<open>The browser's \<^verbatim>\<open>localStorage\<close> holds two items of the cache, the JSON of the
  document list and the JSON of the metadata (document count and last sync, a time in
  milliseconds for the ISO string of the source). What is read back is what was
  written: JSON that does not parse is outside the model. Whether a write fits the
  quota is the browser's decision, from the items it holds and the item written.\<close>

datatype LsItem = DocsItem "CachedDocument list" | MetaItem nat "int option"

record LocalStorage =
  ls_docs :: "CachedDocument list option"
  ls_meta :: "(nat \<times> int option) option"
  accepts :: "CachedDocument list option \<Rightarrow> (nat \<times> int option) option \<Rightarrow> LsItem \<Rightarrow> bool"

definition setItem :: "LsItem \<Rightarrow> LocalStorage \<Rightarrow> exn + LocalStorage" where
  "setItem item ls =
     (if accepts ls (ls_docs ls) (ls_meta ls) item
      then Inr (case item of
                  DocsItem docs \<Rightarrow> ls\<lparr>ls_docs := Some docs\<rparr>
                | MetaItem n t \<Rightarrow> ls\<lparr>ls_meta := Some (n, t)\<rparr>)
      else Inl (Error ''QuotaExceededError''))"

text \<open>The IndexedDB database: the object store \<^verbatim>\<open>documents\<close>, keyed by the document id and
  read in key order, and the two entries of the object store \<^verbatim>\<open>metadata\<close>. A database that
  is there accepts every transaction.\<close>

record IDB =
  idb_documents :: "(string \<times> CachedDocument) list"
  idb_documentCount :: "nat option"
  idb_lastSyncAt :: "int option"

record CyberneticCache =
  storage :: StorageKind
  maxAge :: int
  db :: "IDB option"
  localStorage :: LocalStorage
  documentCount :: nat
  lastSyncAt :: "int option"

record CacheStatus =
  cs_documentCount :: nat
  cs_lastSyncAt :: "int option"
  cacheSize :: nat
  isStale :: bool

definition loadLocalStorageMetadata :: "CyberneticCache \<Rightarrow> CyberneticCache" where
  "loadLocalStorageMetadata c =
     (case ls_meta (localStorage c) of
        None \<Rightarrow> c
      | Some (n, t) \<Rightarrow> c\<lparr>documentCount := n, lastSyncAt := t\<rparr>)"

definition getDB :: "CyberneticCache \<Rightarrow> exn + IDB" where
  "getDB c = (case db c of Some d \<Rightarrow> Inr d | None \<Rightarrow> Inl (Error ''Database not available''))"

definition storeLocalStorage ::
  "int \<Rightarrow> CachedDocument list \<Rightarrow> CyberneticCache \<Rightarrow> (exn + unit) \<times> CyberneticCache" where
  "storeLocalStorage now docs c =
     (let recover = (\<lambda>c1.
            let ls1 = (localStorage c1)\<lparr>ls_docs := None\<rparr>;
                limited = take 50 docs
            in case setItem (DocsItem limited) ls1 of
                 Inl e \<Rightarrow> (Inl e, c1\<lparr>localStorage := ls1\<rparr>)
               | Inr ls2 \<Rightarrow> (Inr (), c1\<lparr>localStorage := ls2, documentCount := length limited\<rparr>))
      in case setItem (DocsItem docs) (localStorage c) of
           Inl e \<Rightarrow> recover c
         | Inr ls1 \<Rightarrow>
             let c1 = c\<lparr>localStorage := ls1, documentCount := length docs, lastSyncAt := Some now\<rparr>
             in (case setItem (MetaItem (length docs) (Some now)) ls1 of
                   Inl e \<Rightarrow> recover c1
                 | Inr ls2 \<Rightarrow> (Inr (), c1\<lparr>localStorage := ls2\<rparr>)))"

definition retrieveLocalStorage :: "CyberneticCache \<Rightarrow> CachedDocument list" where
  "retrieveLocalStorage c = (case ls_docs (localStorage c) of None \<Rightarrow> [] | Some docs \<Rightarrow> docs)"

definition store ::
  "int \<Rightarrow> CachedDocument list \<Rightarrow> CyberneticCache \<Rightarrow> (exn + unit) \<times> CyberneticCache" where
  "store now docs c =
     (if storage c = localstorage then storeLocalStorage now docs c
      else case getDB c of
             Inl e \<Rightarrow> (Inl e, c)
           | Inr d \<Rightarrow>
               let stored = fold (\<lambda>doc ds. AList.update (doc_id doc) doc ds) docs (idb_documents d);
                   n = length stored
               in (Inr (), c\<lparr>db := Some \<lparr>idb_documents = stored, idb_documentCount = Some n,
                                           idb_lastSyncAt = Some now\<rparr>,
                              documentCount := n, lastSyncAt := Some now\<rparr>))"

definition retrieve :: "CyberneticCache \<Rightarrow> exn + CachedDocument list" where
  "retrieve c =
     (if storage c = localstorage then Inr (retrieveLocalStorage c)
      else case getDB c of
             Inl e \<Rightarrow> Inl e
           | Inr d \<Rightarrow> Inr (map snd (sort_key fst (idb_documents d))))"

definition getLastSync :: "CyberneticCache \<Rightarrow> int option" where
  "getLastSync c = lastSyncAt c"

definition getStatus :: "int \<Rightarrow> CyberneticCache \<Rightarrow> CacheStatus" where
  "getStatus now c =
     (let lastSync = (case lastSyncAt c of Some t \<Rightarrow> t | None \<Rightarrow> 0)
      in \<lparr>cs_documentCount = documentCount c, cs_lastSyncAt = lastSyncAt c,
          cacheSize = documentCount c * 5000, isStale = (now - lastSync > maxAge c)\<rparr>)"

definition clear :: "CyberneticCache \<Rightarrow> (exn + unit) \<times> CyberneticCache" where
  "clear c =
     (if storage c = localstorage
      then (Inr (), c\<lparr>localStorage := (localStorage c)\<lparr>ls_docs := None, ls_meta := None\<rparr>,
                      documentCount := 0, lastSyncAt := None\<rparr>)
      else case getDB c of
             Inl e \<Rightarrow> (Inl e, c)
           | Inr d \<Rightarrow>
               (Inr (), c\<lparr>db := Some \<lparr>idb_documents = [], idb_documentCount = None,
                                        idb_lastSyncAt = None\<rparr>,
                           documentCount := 0, lastSyncAt := None\<rparr>))"

section \<open>CyberneticClient: the orchestrator\<close>

datatype ConnectionStatus = Online | Offline | Connecting | StatusError

datatype ConfidenceLevel = high | medium | low | none

datatype ErrorCode =
  NETWORK_ERROR | AUTH_ERROR | RATE_LIMIT | SERVER_ERROR | CACHE_ERROR | LOCAL_RAG_ERROR

record Source =
  src_title :: string
  snippet :: string
  relevance :: real
  documentId :: "string option"

record CyberneticResponse =
  reply :: string
  confidence :: ConfidenceLevel
  sources :: "Source list"
  offline :: bool
  sessionId :: "string option"
  retryAfter :: "nat option"
  degradedReason :: "string option"

record CyberneticError =
  code :: ErrorCode
  message :: string
  err_retryAfter :: "nat option"
  originalError :: "exn option"

record SystemSettings =
  cacheRetentionHours :: int
  maintenanceMode :: bool
  maintenanceMessage :: "string option"
  forceOfflineClients :: bool

text \<open>The settings as the status response carries them: the response may leave the
  object out, and the object may leave each field out.\<close>

record ServerSettings =
  srv_cacheRetentionHours :: "int option"
  srv_maintenanceMode :: "bool option"
  srv_maintenanceMessage :: "string option"
  srv_forceOfflineClients :: "bool option"

record StatusResponse =
  srv_systemSettings :: "ServerSettings option"

record PageContext =
  currentPage :: "string option"
  pageTitle :: "string option"

record AskOptions =
  opt_sessionId :: "string option"
  opt_context :: "PageContext option"
  skipFallback :: bool

record ChatRequest =
  req_sessionId :: "string option"
  req_context :: "PageContext option"

record ChatResponse =
  chat_reply :: string
  chat_sessionId :: "string option"
  chat_sources :: "Source list option"

text \<open>The transport collaborator. Each call gets the number of requests the client has
  sent before it, so that the answer to the same request can change from one call to
  the next, as a network does (and as the mock sequences of the tests do).\<close>

record ApiClient =
  chat :: "nat \<Rightarrow> string \<Rightarrow> ChatRequest \<Rightarrow> exn + ChatResponse"
  api_getStatus :: "nat \<Rightarrow> exn + StatusResponse"
  getGeneralDocs :: "nat \<Rightarrow> int option \<Rightarrow> exn + CachedDocument list"

record RetryConfig =
  maxRetries :: int
  initialDelay :: nat
  exponentialBackoff :: bool

record ResolvedConfig =
  fallback_enabled :: bool
  retry :: RetryConfig

text \<open>The observers of the host (\<^verbatim>\<open>onStatusChange\<close>, \<^verbatim>\<open>onError\<close>) are modelled by the list of
  the calls made to them; they return normally.\<close>

datatype Notification = StatusChange ConnectionStatus | ErrorReported CyberneticError

text \<open>The client, with what it sees of the world: \<open>clock\<close> is \<^verbatim>\<open>Date.now()\<close> (a request
  takes no time, a \<^verbatim>\<open>sleep\<close> takes its delay), \<open>requests\<close> counts the requests sent to the
  transport.\<close>

record CyberneticClient =
  config :: ResolvedConfig
  cache :: CyberneticCache
  localRAG :: CyberneticLocalRAG
  status :: ConnectionStatus
  lastError :: "CyberneticError option"
  systemSettings :: "SystemSettings option"
  settingsLastChecked :: int
  clock :: int
  requests :: nat
  notified :: "Notification list"

definition SETTINGS_CHECK_INTERVAL :: int where
  "SETTINGS_CHECK_INTERVAL = 300000"

text \<open>\<^verbatim>\<open>s.includes(sub)\<close>\<close>

fun includes_str :: "string \<Rightarrow> string \<Rightarrow> bool" where
  "includes_str [] sub = (sub = [])"
| "includes_str (c # cs) sub = (take (length sub) (c # cs) = sub \<or> includes_str cs sub)"

definition isDigit :: "char \<Rightarrow> bool" where
  "isDigit c = (48 \<le> (of_char c :: nat) \<and> (of_char c :: nat) \<le> 57)"

text \<open>\<^verbatim>\<open>parseInt(digits, 10)\<close> on a string of decimal digits.\<close>

definition parseInt :: "string \<Rightarrow> nat" where
  "parseInt ds = fold (\<lambda>d n. 10 * n + (of_char d - 48)) ds 0"

text \<open>\<^verbatim>\<open>msg.match(/retry after (\d+)/i)\<close>: the digits after the leftmost
  \<^verbatim>\<open>retry after\<close>, in any case, that digits follow.\<close>

fun matchRetryAfter :: "string \<Rightarrow> string option" where
  "matchRetryAfter [] = None"
| "matchRetryAfter (c # cs) =
     (if toLowerCase (take 12 (c # cs)) = ''retry after '' \<and> takeWhile isDigit (drop 12 (c # cs)) \<noteq> []
      then Some (takeWhile isDigit (drop 12 (c # cs)))
      else matchRetryAfter cs)"

declare includes_str.simps [simp del] matchRetryAfter.simps [simp del]

definition normalizeError :: "exn \<Rightarrow> CyberneticError" where
  "normalizeError err =
     (case err of
        Error msg \<Rightarrow>
          if includes_str msg ''401'' \<or> includes_str msg ''Unauthorized''
          then \<lparr>code = AUTH_ERROR, message = ''Invalid or expired API key'',
                err_retryAfter = None, originalError = Some err\<rparr>
          else if includes_str msg ''429'' \<or> includes_str msg ''Rate limit''
          then \<lparr>code = RATE_LIMIT, message = ''Rate limit exceeded'',
                err_retryAfter = Some (case matchRetryAfter msg of
                                         Some ds \<Rightarrow> parseInt ds | None \<Rightarrow> 60),
                originalError = Some err\<rparr>
          else if includes_str msg ''5'' \<or> includes_str msg ''Server''
          then \<lparr>code = SERVER_ERROR, message = ''Server error occurred'',
                err_retryAfter = None, originalError = Some err\<rparr>
          else \<lparr>code = NETWORK_ERROR, message = (if msg = [] then ''Network error'' else msg),
                err_retryAfter = None, originalError = Some err\<rparr>
      | NonError \<Rightarrow>
          \<lparr>code = NETWORK_ERROR, message = ''Unknown error occurred'',
           err_retryAfter = None, originalError = None\<rparr>)"

definition createErrorResponse ::
  "string \<Rightarrow> ConfidenceLevel \<Rightarrow> nat option \<Rightarrow> CyberneticResponse" where
  "createErrorResponse msg conf after =
     \<lparr>reply = msg, confidence = conf, sources = [], offline = False, sessionId = None,
      retryAfter = after, degradedReason = None\<rparr>"

definition setStatus :: "ConnectionStatus \<Rightarrow> CyberneticClient \<Rightarrow> CyberneticClient" where
  "setStatus s st =
     (if status st \<noteq> s then st\<lparr>status := s, notified := notified st @ [StatusChange s]\<rparr>
      else st)"

definition sleep :: "nat \<Rightarrow> CyberneticClient \<Rightarrow> CyberneticClient" where
  "sleep ms st = st\<lparr>clock := clock st + int ms\<rparr>"

definition defaultSettings :: SystemSettings where
  "defaultSettings =
     \<lparr>cacheRetentionHours = 168, maintenanceMode = False, maintenanceMessage = None,
      forceOfflineClients = False\<rparr>"

definition settingsOf :: "StatusResponse \<Rightarrow> SystemSettings" where
  "settingsOf resp =
     \<lparr>cacheRetentionHours =
        (case Option.bind (srv_systemSettings resp) srv_cacheRetentionHours of
           Some h \<Rightarrow> h | None \<Rightarrow> 168),
      maintenanceMode =
        (case Option.bind (srv_systemSettings resp) srv_maintenanceMode of
           Some b \<Rightarrow> b | None \<Rightarrow> False),
      maintenanceMessage = Option.bind (srv_systemSettings resp) srv_maintenanceMessage,
      forceOfflineClients =
        (case Option.bind (srv_systemSettings resp) srv_forceOfflineClients of
           Some b \<Rightarrow> b | None \<Rightarrow> False)\<rparr>"

definition checkSystemStatus ::
  "ApiClient \<Rightarrow> CyberneticClient \<Rightarrow> SystemSettings \<times> CyberneticClient" where
  "checkSystemStatus api st =
     (let fetch =
            (case api_getStatus api (requests st) of
               Inr resp \<Rightarrow>
                 (settingsOf resp,
                  st\<lparr>requests := requests st + 1, systemSettings := Some (settingsOf resp),
                     settingsLastChecked := clock st\<rparr>)
             | Inl e \<Rightarrow>
                 ((case systemSettings st of Some s \<Rightarrow> s | None \<Rightarrow> defaultSettings),
                  st\<lparr>requests := requests st + 1\<rparr>))
      in case systemSettings st of
           Some s \<Rightarrow>
             if clock st - settingsLastChecked st < SETTINGS_CHECK_INTERVAL then (s, st)
             else fetch
         | None \<Rightarrow> fetch)"

definition isCacheValid :: "CyberneticClient \<Rightarrow> bool" where
  "isCacheValid st =
     (let cacheStatus = getStatus (clock st) (cache st)
      in case cs_lastSyncAt cacheStatus of
           None \<Rightarrow> False
         | Some lastSyncTime \<Rightarrow>
             let retentionHours =
                   (case systemSettings st of
                      None \<Rightarrow> 168
                    | Some s \<Rightarrow> if cacheRetentionHours s = 0 then 168 else cacheRetentionHours s);
                 retentionMs = retentionHours * 60 * 60 * 1000
             in clock st - lastSyncTime < retentionMs)"

text \<open>The request object of a chat call: \<^verbatim>\<open>{sessionId: options?.sessionId, context: options?.context}\<close>.\<close>

definition chatRequestOf :: "AskOptions option \<Rightarrow> ChatRequest" where
  "chatRequestOf opts =
     \<lparr>req_sessionId = Option.bind opts opt_sessionId, req_context = Option.bind opts opt_context\<rparr>"

text \<open>The loop of \<^verbatim>\<open>apiWithRetry\<close>, from attempt \<open>attempt\<close> on, with the three fields of the
  retry configuration the source reads before the loop. After the loop the source
  throws \<^verbatim>\<open>lastError\<close>, which is still \<^verbatim>\<open>null\<close> when no attempt was made.\<close>

function apiWithRetryFrom ::
  "ApiClient \<Rightarrow> int \<Rightarrow> nat \<Rightarrow> bool \<Rightarrow> string \<Rightarrow> AskOptions option \<Rightarrow> nat \<Rightarrow> exn option
     \<Rightarrow> CyberneticClient \<Rightarrow> (exn + ChatResponse) \<times> CyberneticClient" where
  "apiWithRetryFrom api maxR delay0 expo msg opts attempt lastErr st =
     (if int attempt \<le> maxR then
        case chat api (requests st) msg (chatRequestOf opts) of
          Inr resp \<Rightarrow> (Inr resp, st\<lparr>requests := requests st + 1\<rparr>)
        | Inl e \<Rightarrow>
            let st1 = st\<lparr>requests := requests st + 1\<rparr>
            in if code (normalizeError e) = AUTH_ERROR \<or> code (normalizeError e) = RATE_LIMIT
               then (Inl e, st1)
               else apiWithRetryFrom api maxR delay0 expo msg opts (attempt + 1) (Some e)
                      (if int attempt < maxR
                       then sleep (if expo then delay0 * 2 ^ attempt else delay0) st1
                       else st1)
      else (Inl (case lastErr of Some e \<Rightarrow> e | None \<Rightarrow> NonError), st))"
  by pat_completeness auto
termination
  by (relation "measure (\<lambda>(api, maxR, delay0, expo, msg, opts, attempt, lastErr, st).
                           nat (maxR + 1 - int attempt))") auto

declare apiWithRetryFrom.simps [simp del]

definition apiWithRetry ::
  "ApiClient \<Rightarrow> string \<Rightarrow> AskOptions option \<Rightarrow> CyberneticClient
     \<Rightarrow> (exn + ChatResponse) \<times> CyberneticClient" where
  "apiWithRetry api msg opts st =
     apiWithRetryFrom api (maxRetries (retry (config st))) (initialDelay (retry (config st)))
       (exponentialBackoff (retry (config st))) msg opts 0 None st"

definition noCacheResponse :: CyberneticResponse where
  "noCacheResponse =
     \<lparr>reply = ''I'm currently offline and don't have any cached information. Please check your connection and try again.'',
      confidence = none, sources = [], offline = True, sessionId = None, retryAfter = None,
      degradedReason = Some ''No cached documents available''\<rparr>"

definition ragFailedResponse :: CyberneticResponse where
  "ragFailedResponse =
     \<lparr>reply = ''I'm having trouble processing your request offline. Please try again when you're back online.'',
      confidence = none, sources = [], offline = True, sessionId = None, retryAfter = None,
      degradedReason = Some ''Local RAG processing failed''\<rparr>"

definition fallbackAsk ::
  "string \<Rightarrow> CyberneticClient \<Rightarrow> (exn + CyberneticResponse) \<times> CyberneticClient" where
  "fallbackAsk msg st =
     (let st1 = setStatus Offline st;
          cacheStatus = getStatus (clock st1) (cache st1)
      in if cs_documentCount cacheStatus = 0 then (Inr noCacheResponse, st1)
         else case retrieve (cache st1) of
                Inl e \<Rightarrow> (Inr ragFailedResponse, st1)
              | Inr docs \<Rightarrow>
                  let rag = (if \<not> isIndexed (localRAG st1) then rag_index docs else localRAG st1);
                      result = rag_ask msg rag;
                      conf = (if topScore result < 3 / 10 then low
                              else if topScore result > 7 / 10 then medium
                              else medium)
                  in (Inr \<lparr>reply = answer result, confidence = conf,
                           sources = map (\<lambda>s. \<lparr>src_title = rs_title s, snippet = rs_snippet s,
                                                relevance = rs_score s, documentId = None\<rparr>)
                                       (rag_sources result),
                           offline = True, sessionId = None, retryAfter = None,
                           degradedReason =
                             Some (if isStale cacheStatus then ''Using stale cached data''
                                   else ''Processed locally without server'')\<rparr>,
                      st1\<lparr>localRAG := rag\<rparr>))"

definition maintenanceResponse :: "SystemSettings \<Rightarrow> CyberneticResponse" where
  "maintenanceResponse settings =
     \<lparr>reply = (case maintenanceMessage settings of
                 None \<Rightarrow> ''The service is currently under maintenance. Please try again later.''
               | Some m \<Rightarrow>
                   if m = [] then ''The service is currently under maintenance. Please try again later.''
                   else m),
      confidence = none, sources = [], offline = True, sessionId = None, retryAfter = None,
      degradedReason = Some ''Maintenance mode active, no valid cache available''\<rparr>"

definition rateLimitResponse :: "nat option \<Rightarrow> CyberneticResponse" where
  "rateLimitResponse after =
     \<lparr>reply = ''I'm receiving too many requests right now. Please try again in a moment.'',
      confidence = none, sources = [], offline = False, sessionId = None, retryAfter = after,
      degradedReason = None\<rparr>"

definition ask ::
  "ApiClient \<Rightarrow> string \<Rightarrow> AskOptions option \<Rightarrow> CyberneticClient
     \<Rightarrow> (exn + CyberneticResponse) \<times> CyberneticClient" where
  "ask api msg opts st =
     (if msg = [] then (Inr (createErrorResponse ''Message is required'' none None), st)
      else
        let (settings, st1) = checkSystemStatus api st
        in if maintenanceMode settings \<or> forceOfflineClients settings
           then (if \<not> isCacheValid st1 then (Inr (maintenanceResponse settings), st1)
                 else fallbackAsk msg st1)
           else
             case apiWithRetry api msg opts st1 of
               (Inr response, st2) \<Rightarrow>
                 (Inr \<lparr>reply = chat_reply response, confidence = high,
                       sources = (case chat_sources response of Some ss \<Rightarrow> ss | None \<Rightarrow> []),
                       offline = False, sessionId = chat_sessionId response,
                       retryAfter = None, degradedReason = None\<rparr>,
                  setStatus Online st2)
             | (Inl err, st2) \<Rightarrow>
                 let omegaError = normalizeError err;
                     st3 = st2\<lparr>lastError := Some omegaError,
                              notified := notified st2 @ [ErrorReported omegaError]\<rparr>
                 in if code omegaError = RATE_LIMIT
                    then (Inr (rateLimitResponse (err_retryAfter omegaError)), st3)
                    else if fallback_enabled (config st3)
                            \<and> \<not> (case opts of Some os \<Rightarrow> skipFallback os | None \<Rightarrow> False)
                    then fallbackAsk msg st3
                    else (Inr (createErrorResponse
                                 ''Unable to connect to the chatbot service. Please try again later.''
                                 none (err_retryAfter omegaError)), st3))"

definition syncCache :: "ApiClient \<Rightarrow> CyberneticClient \<Rightarrow> (exn + unit) \<times> CyberneticClient" where
  "syncCache api st =
     (case getGeneralDocs api (requests st) (getLastSync (cache st)) of
        Inl e \<Rightarrow> (Inr (), st\<lparr>requests := requests st + 1\<rparr>)
      | Inr docs \<Rightarrow>
          let st1 = st\<lparr>requests := requests st + 1\<rparr>
          in if length docs > 0
             then (case store (clock st1) docs (cache st1) of
                     (Inl e, c) \<Rightarrow> (Inr (), st1\<lparr>cache := c\<rparr>)
                   | (Inr u, c) \<Rightarrow>
                       (Inr (), setStatus Online (st1\<lparr>cache := c, localRAG := rag_index docs\<rparr>)))
             else (Inr (), setStatus Online st1))"

definition clearCache :: "CyberneticClient \<Rightarrow> (exn + unit) \<times> CyberneticClient" where
  "clearCache st =
     (case clear (cache st) of
        (Inl e, c) \<Rightarrow> (Inl e, st\<lparr>cache := c\<rparr>)
      | (Inr u, c) \<Rightarrow> (Inr (), st\<lparr>cache := c, localRAG := rag_reset\<rparr>))"

section \<open>Predicates of the statements\<close>

text \<open>Two client states that differ at most in the clock and in the number of requests
  sent.\<close>

definition sameButTransport :: "CyberneticClient \<Rightarrow> CyberneticClient \<Rightarrow> bool" where
  "sameButTransport st' st =
     (config st' = config st \<and> cache st' = cache st \<and> localRAG st' = localRAG st
      \<and> status st' = status st \<and> lastError st' = lastError st
      \<and> systemSettings st' = systemSettings st
      \<and> settingsLastChecked st' = settingsLastChecked st \<and> notified st' = notified st)"

text \<open>An error the retry loop retries: one that is classified neither as an
  authentication failure nor as a rate limit.\<close>

definition retryable :: "exn \<Rightarrow> bool" where
  "retryable e = (code (normalizeError e) \<noteq> AUTH_ERROR \<and> code (normalizeError e) \<noteq> RATE_LIMIT)"


text \<open>A write of the first attempt of \<^verbatim>\<open>storeLocalStorage\<close> is rejected: the document list,
  or the metadata after it.\<close>

definition firstWriteRejected :: "int \<Rightarrow> CachedDocument list \<Rightarrow> CyberneticCache \<Rightarrow> bool" where
  "firstWriteRejected now docs c =
     (case setItem (DocsItem docs) (localStorage c) of
        Inl e \<Rightarrow> True
      | Inr ls1 \<Rightarrow> (case setItem (MetaItem (length docs) (Some now)) ls1 of
                      Inl e \<Rightarrow> True | Inr ls2 \<Rightarrow> False))"

text \<open>The browser accepts the retry: the first 50 documents, written once the item of the
  documents is removed.\<close>

definition retryAccepted :: "CachedDocument list \<Rightarrow> CyberneticCache \<Rightarrow> bool" where
  "retryAccepted docs c =
     accepts (localStorage c) None (ls_meta (localStorage c)) (DocsItem (take 50 docs))"

section \<open>Scenarios\<close>

text \<open>A client as its constructor leaves it with the default configuration over an empty
  \<^verbatim>\<open>localStorage\<close> that accepts every write, and transports that answer as the mocks of
  the test suite do.\<close>

definition emptyCache :: CyberneticCache where
  "emptyCache =
     \<lparr>storage = localstorage, maxAge = 86400000, db = None,
      localStorage = \<lparr>ls_docs = None, ls_meta = None, accepts = (\<lambda>ds m item. True)\<rparr>,
      documentCount = 0, lastSyncAt = None\<rparr>"

definition freshClient :: CyberneticClient where
  "freshClient =
     \<lparr>config = \<lparr>fallback_enabled = True,
                retry = \<lparr>maxRetries = 2, initialDelay = 1000, exponentialBackoff = True\<rparr>\<rparr>,
      cache = emptyCache, localRAG = rag_reset, status = Connecting, lastError = None,
      systemSettings = None, settingsLastChecked = 0, clock = 1000000, requests = 0,
      notified = []\<rparr>"

definition rateLimitedApi :: ApiClient where
  "rateLimitedApi =
     \<lparr>chat = (\<lambda>n msg rq. Inl (Error ''Rate limit exceeded, retry after 30'')),
      api_getStatus = (\<lambda>n. Inl (Error ''Rate limit exceeded, retry after 30'')),
      getGeneralDocs = (\<lambda>n since. Inl (Error ''Rate limit exceeded, retry after 30''))\<rparr>"

definition unauthorizedApi :: ApiClient where
  "unauthorizedApi =
     \<lparr>chat = (\<lambda>n msg rq. Inl (Error ''401 Unauthorized'')),
      api_getStatus = (\<lambda>n. Inl (Error ''401 Unauthorized'')),
      getGeneralDocs = (\<lambda>n since. Inl (Error ''401 Unauthorized''))\<rparr>"

definition successResponse :: ChatResponse where
  "successResponse = \<lparr>chat_reply = ''Success!'', chat_sessionId = Some ''123'', chat_sources = Some []\<rparr>"

definition flakyApi :: ApiClient where
  "flakyApi =
     \<lparr>chat = (\<lambda>n msg rq. if n < 2 then Inl (Error ''Network error'') else Inr successResponse),
      api_getStatus = (\<lambda>n. Inl (Error ''Network error'')),
      getGeneralDocs = (\<lambda>n since. Inl (Error ''Network error''))\<rparr>"

definition maintenanceApi :: ApiClient where
  "maintenanceApi =
     \<lparr>chat = (\<lambda>n msg rq. Inl (Error ''Network error'')),
      api_getStatus = (\<lambda>n. Inr \<lparr>srv_systemSettings = Some
         \<lparr>srv_cacheRetentionHours = Some 168, srv_maintenanceMode = Some True,
          srv_maintenanceMessage = Some ''Back in 2 hours!'',
          srv_forceOfflineClients = Some False\<rparr>\<rparr>),
      getGeneralDocs = (\<lambda>n since. Inl (Error ''Network error''))\<rparr>"

text \<open>A client constructed one second after a \<^verbatim>\<open>store([])\<close> on a cache over the same
  \<^verbatim>\<open>localStorage\<close>: its constructor loads a document count of 0 and the time of that
  store.\<close>

definition emptySyncedClient :: CyberneticClient where
  "emptySyncedClient =
     freshClient\<lparr>cache := loadLocalStorageMetadata
       (emptyCache\<lparr>localStorage := localStorage (snd (store 999000 [] emptyCache))\<rparr>)\<rparr>"

definition alphaDoc :: CachedDocument where
  "alphaDoc = \<lparr>doc_id = ''doc-1'', title = ''FAQ'', content = ''alpha'', updatedAt = ''2024-01-01''\<rparr>"


definition alphaCache :: CyberneticCache where
  "alphaCache = snd (store 999000 [alphaDoc] emptyCache)"

definition alphaClient :: CyberneticClient where
  "alphaClient = freshClient\<lparr>cache := alphaCache\<rparr>"

text \<open>The client with one cached document, 168 hours after the sync that cached it.\<close>

definition outdatedClient :: CyberneticClient where
  "outdatedClient = alphaClient\<lparr>clock := 999000 + 168 * 3600000\<rparr>"

text \<open>Two browsers with a quota: one accepts a list of at most 10 documents, the other a
  list of at most 60.\<close>

definition tenDocQuotaCache :: CyberneticCache where
  "tenDocQuotaCache =
     emptyCache\<lparr>localStorage :=
       \<lparr>ls_docs = None, ls_meta = None,
        accepts = (\<lambda>ds m item. case item of DocsItem docs \<Rightarrow> length docs \<le> 10
                                        | MetaItem n t \<Rightarrow> True)\<rparr>\<rparr>"

definition sixtyDocQuotaCache :: CyberneticCache where
  "sixtyDocQuotaCache =
     emptyCache\<lparr>localStorage :=
       \<lparr>ls_docs = None, ls_meta = None,
        accepts = (\<lambda>ds m item. case item of DocsItem docs \<Rightarrow> length docs \<le> 60
                                        | MetaItem n t \<Rightarrow> True)\<rparr>\<rparr>"

section \<open>Properties of the tokenizer\<close>

lemma splitRuns_map_cong:
  assumes sep: "\<And>c. sep (f c) = sep (g c)" and same: "\<And>c. \<not> sep (g c) \<Longrightarrow> f c = g c"
  shows "splitRuns sep cur (map f s) = splitRuns sep cur (map g s)
       \<and> skipRun sep (map f s) = skipRun sep (map g s)"
proof (induction s arbitrary: cur)
  case Nil
  show ?case by simp
next
  case (Cons c cs)
  show ?case
  proof (cases "sep (g c)")
    case True
    then show ?thesis using Cons sep [of c] by simp
  next
    case False
    then show ?thesis using Cons sep [of c] same [of c] by simp
  qed
qed

lemma underscore_char: "((of_char c :: nat) = 95) = (c = CHR ''_'')"
proof -
  have "(of_char c :: nat) = of_char CHR ''_'' \<longleftrightarrow> c = CHR ''_''"
    by (rule of_char_eq_iff)
  then show ?thesis by simp
qed

lemma isWordChar_alnum: "isWordChar c = (isAlnum c \<or> c = CHR ''_'')"
  by (auto simp: isWordChar_def isAlnum_def Let_def underscore_char)

lemma space_isSpaceChar: "isSpaceChar CHR '' ''"
  by (simp add: isSpaceChar_def)

lemma word_not_space: "isWordChar c \<Longrightarrow> \<not> isSpaceChar c"
  by (auto simp: isWordChar_def isSpaceChar_def Let_def)

text \<open>
  C7 (as amended). For every input string, \<open>tokenize\<close> lower-cases the text, replaces
  every character other than an ASCII letter, a digit or the underscore by a space,
  splits on whitespace, and drops every token of length at most 2 and every stop word.
  The regular expression of the source keeps \<^verbatim>\<open>\w\<close>, which holds the underscore, and
  keeps whitespace; whitespace of any kind then separates as a space does. \<open>tokenize\<close>
  is a function of its argument alone.
\<close>

theorem tokenize_keeps_underscore: "tokenize text = tokenize_underscore text"
proof -
  let ?f = "\<lambda>c. if isWordChar c \<or> isSpaceChar c then c else CHR '' ''"
  let ?g = "\<lambda>c. if isAlnum c \<or> c = CHR ''_'' then c else CHR '' ''"
  have sep: "isSpaceChar (?f c) = isSpaceChar (?g c)" for c
    using word_not_space [of c] by (auto simp: isWordChar_alnum space_isSpaceChar)
  have same: "\<not> isSpaceChar (?g c) \<Longrightarrow> ?f c = ?g c" for c
    by (auto simp: isWordChar_alnum space_isSpaceChar)
  have "splitRuns isSpaceChar [] (map ?f (toLowerCase text))
      = splitRuns isSpaceChar [] (map ?g (toLowerCase text))"
    using splitRuns_map_cong [of isSpaceChar ?f ?g, OF sep same] by blast
  then show ?thesis
    by (simp add: tokenize_def tokenize_underscore_def replaceNonWord_def)
qed

text \<open>
  C7 as the specification states it fails on an underscore: it is not alphanumeric, and
  the source does not replace it, so \<^verbatim>\<open>foo_bar\<close> stays one token.
\<close>

theorem tokenize_spec_counterexample:
  "tokenize ''foo_bar'' = [''foo_bar''] \<and> tokenize_spec ''foo_bar'' = [''foo'', ''bar'']"
  by code_simp

section \<open>Evaluations of the scenarios\<close>

lemma normalize_rate_limit:
  "normalizeError (Error ''Rate limit exceeded, retry after 30'')
     = \<lparr>code = RATE_LIMIT, message = ''Rate limit exceeded'', err_retryAfter = Some 30,
        originalError = Some (Error ''Rate limit exceeded, retry after 30'')\<rparr>"
  by code_simp



lemma normalize_unauthorized: "code (normalizeError (Error ''401 Unauthorized'')) = AUTH_ERROR"
  by code_simp

lemma normalize_network: "code (normalizeError (Error ''Network error'')) = NETWORK_ERROR"
  by code_simp

lemma tokenize_alpha: "tokenize ''alpha'' = [''alpha'']"
  by code_simp

lemma ctf_alpha: "computeTermFrequency [''alpha''] = [(''alpha'', 1)]"
  by (simp add: computeTermFrequency_def countToken_def orElse_def)

lemma index_alpha:
  "rag_index [alphaDoc]
     = \<lparr>documents = [\<lparr>idx_id = ''doc-1'', idx_title = ''FAQ'', idx_content = ''alpha'',
                       tokens = [''alpha''], tfidf = [(''alpha'', 1)]\<rparr>],
        idf = [(''alpha'', 1)], indexed = True\<rparr>"
  by (simp add: rag_index_def alphaDoc_def tokenize_alpha ctf_alpha newSet_def addDocFreq_def
        countToken_def tfidfVector_def orElse_def Let_def)

lemma snippet_alpha: "extractRelevantSnippet ''alpha'' [''alpha''] = ''alpha.''"
  by code_simp

lemma ask_alpha:
  "rag_ask ''alpha'' (rag_index [alphaDoc])
     = \<lparr>answer = ''alpha.'',
        rag_sources = [\<lparr>rs_title = ''FAQ'', rs_snippet = ''alpha...'', rs_score = 1\<rparr>],
        topScore = 1\<rparr>"
  by (simp add: rag_ask_def documentScores_def index_alpha tokenize_alpha ctf_alpha orElse_def
        tfidfVector_def cosineSimilarity_def snippet_alpha Let_def)

lemma alphaCache_eq:
  "alphaCache
    = \<lparr>storage = localstorage, maxAge = 86400000, db = None,
       localStorage = \<lparr>ls_docs = Some [alphaDoc], ls_meta = Some (1, Some 999000),
                        accepts = (\<lambda>ds m item. True)\<rparr>,
       documentCount = 1, lastSyncAt = Some 999000\<rparr>"
  by (simp add: alphaCache_def store_def storeLocalStorage_def emptyCache_def setItem_def Let_def)

lemma emptySynced_cache:
  "cache emptySyncedClient
    = \<lparr>storage = localstorage, maxAge = 86400000, db = None,
       localStorage = \<lparr>ls_docs = Some [], ls_meta = Some (0, Some 999000), accepts = (\<lambda>ds m item. True)\<rparr>,
       documentCount = 0, lastSyncAt = Some 999000\<rparr>"
  by (simp add: emptySyncedClient_def loadLocalStorageMetadata_def store_def
        storeLocalStorage_def emptyCache_def setItem_def freshClient_def Let_def)

section \<open>Ranking in the local engine\<close>

subsection \<open>The Cauchy-Schwarz inequality on lists\<close>




subsection \<open>Term frequencies and TF-IDF vectors\<close>












subsection \<open>Cosine similarity\<close>






subsection \<open>The stable sort and the scores of a corpus\<close>









subsection \<open>A corpus of two documents\<close>

















section \<open>The cache\<close>

lemma setItem_accepts: "setItem item ls = Inr ls' \<Longrightarrow> accepts ls' = accepts ls"
  by (auto simp: setItem_def split: if_splits LsItem.splits)

lemma setItem_docs_meta:
  "setItem (DocsItem docs) ls = Inr ls' \<Longrightarrow> ls_meta ls' = ls_meta ls"
  by (auto simp: setItem_def split: if_splits)

lemma syncCache_returns: "fst (syncCache api st) = Inr ()"
  by (simp add: syncCache_def Let_def split: sum.split prod.split)


text \<open>
  C8 (as amended). In the \<^verbatim>\<open>localStorage\<close> mode, when the backing store rejects a write
  of the first attempt, \<open>store\<close> removes the stored list, keeps the first 50 documents of
  the list it was given and retries the write once. When the retry is accepted, \<open>store\<close>
  returns normally and a retrieval gives these at most 50 documents. When the retry is
  rejected as well, the error leaves \<open>store\<close> and a retrieval gives no document. Either
  way a retrieval after the quota failure gives at most 50 documents, and \<open>syncCache\<close>,
  the caller of \<open>store\<close> in the client, never throws.
\<close>

theorem store_quota_failure:
  assumes ls: "storage c = localstorage"
    and rej: "firstWriteRejected now docs c"
  shows "(retryAccepted docs c \<longrightarrow>
            fst (store now docs c) = Inr ()
            \<and> retrieve (snd (store now docs c)) = Inr (take 50 docs)
            \<and> documentCount (snd (store now docs c)) = min (length docs) 50)
       \<and> (\<not> retryAccepted docs c \<longrightarrow>
            fst (store now docs c) = Inl (Error ''QuotaExceededError'')
            \<and> retrieve (snd (store now docs c)) = Inr [])
       \<and> (\<exists>ds. retrieve (snd (store now docs c)) = Inr ds \<and> length ds \<le> 50)
       \<and> fst (syncCache api st) = Inr ()"
proof (cases "setItem (DocsItem docs) (localStorage c)")
  case (Inl e)
  show ?thesis
    using ls Inl syncCache_returns [of api st]
    by (cases "retryAccepted docs c")
       (auto simp: store_def storeLocalStorage_def Let_def retryAccepted_def setItem_def
          retrieve_def retrieveLocalStorage_def split: if_splits)
next
  case (Inr ls1)
  have a: "accepts ls1 = accepts (localStorage c)" using setItem_accepts [OF Inr] .
  have m: "ls_meta ls1 = ls_meta (localStorage c)" using setItem_docs_meta [OF Inr] .
  from rej Inr obtain e where meta: "setItem (MetaItem (length docs) (Some now)) ls1 = Inl e"
    by (auto simp: firstWriteRejected_def split: sum.splits)
  show ?thesis
    using ls Inr meta a m syncCache_returns [of api st]
    by (cases "retryAccepted docs c")
       (auto simp: store_def storeLocalStorage_def Let_def retryAccepted_def setItem_def
          retrieve_def retrieveLocalStorage_def split: if_splits)
qed


text \<open>The theorem at 100 documents, for a browser that accepts 60 documents (the retry
  succeeds) and for one that accepts 10 (the retry fails).\<close>

theorem store_quota_failure_witness:
  "firstWriteRejected 999000 (replicate 100 alphaDoc) sixtyDocQuotaCache
   \<and> retryAccepted (replicate 100 alphaDoc) sixtyDocQuotaCache
   \<and> fst (store 999000 (replicate 100 alphaDoc) sixtyDocQuotaCache) = Inr ()
   \<and> retrieve (snd (store 999000 (replicate 100 alphaDoc) sixtyDocQuotaCache))
        = Inr (replicate 50 alphaDoc)
   \<and> firstWriteRejected 999000 (replicate 100 alphaDoc) tenDocQuotaCache
   \<and> \<not> retryAccepted (replicate 100 alphaDoc) tenDocQuotaCache
   \<and> retrieve (snd (store 999000 (replicate 100 alphaDoc) tenDocQuotaCache)) = Inr []"
proof -
  have s: "storage sixtyDocQuotaCache = localstorage" "storage tenDocQuotaCache = localstorage"
    by (simp_all add: sixtyDocQuotaCache_def tenDocQuotaCache_def emptyCache_def)
  have r6: "firstWriteRejected 999000 (replicate 100 alphaDoc) sixtyDocQuotaCache"
    by (simp add: firstWriteRejected_def sixtyDocQuotaCache_def emptyCache_def setItem_def)
  have a6: "retryAccepted (replicate 100 alphaDoc) sixtyDocQuotaCache"
    by (simp add: retryAccepted_def sixtyDocQuotaCache_def emptyCache_def)
  have r1: "firstWriteRejected 999000 (replicate 100 alphaDoc) tenDocQuotaCache"
    by (simp add: firstWriteRejected_def tenDocQuotaCache_def emptyCache_def setItem_def)
  have a1: "\<not> retryAccepted (replicate 100 alphaDoc) tenDocQuotaCache"
    by (simp add: retryAccepted_def tenDocQuotaCache_def emptyCache_def)
  from store_quota_failure [OF s(1) r6, where api = rateLimitedApi and st = freshClient] a6
  have six: "fst (store 999000 (replicate 100 alphaDoc) sixtyDocQuotaCache) = Inr ()
     \<and> retrieve (snd (store 999000 (replicate 100 alphaDoc) sixtyDocQuotaCache))
          = Inr (replicate 50 alphaDoc)"
    by simp
  from store_quota_failure [OF s(2) r1, where api = rateLimitedApi and st = freshClient] a1
  have ten: "retrieve (snd (store 999000 (replicate 100 alphaDoc) tenDocQuotaCache)) = Inr []"
    by simp
  show ?thesis using r6 a6 r1 a1 six ten by simp
qed


text \<open>
  C8 as the specification states it fails where the retry is rejected too: with 100
  documents and a browser that accepts 10, \<open>store\<close> ends with the quota error.
\<close>

theorem store_propagates_counterexample:
  "fst (store 999000 (replicate 100 alphaDoc) tenDocQuotaCache) = Inl (Error ''QuotaExceededError'')"
  by (simp add: store_def storeLocalStorage_def tenDocQuotaCache_def emptyCache_def setItem_def Let_def)

section \<open>What the operations of the client leave unchanged\<close>

lemma setStatus_cache: "cache (setStatus s st) = cache st"
  by (simp add: setStatus_def)

lemma fallbackAsk_cache: "cache (snd (fallbackAsk msg st)) = cache st"
  by (simp add: fallbackAsk_def Let_def setStatus_cache split: sum.split)

lemma checkSystemStatus_cache: "cache (snd (checkSystemStatus api st)) = cache st"
  by (simp add: checkSystemStatus_def Let_def split: option.split sum.split)

lemma apiWithRetryFrom_cache:
  "cache (snd (apiWithRetryFrom api maxR delay0 expo msg opts attempt lastErr st)) = cache st"
proof (induction api maxR delay0 expo msg opts attempt lastErr st rule: apiWithRetryFrom.induct)
  case (1 api maxR delay0 expo msg opts attempt lastErr st)
  show ?case
    using 1 by (subst apiWithRetryFrom.simps) (auto simp: Let_def sleep_def split: sum.split)
qed

lemma apiWithRetry_cache: "cache (snd (apiWithRetry api msg opts st)) = cache st"
  by (simp add: apiWithRetry_def apiWithRetryFrom_cache)

lemma apiWithRetryFrom_frame:
  "sameButTransport (snd (apiWithRetryFrom api maxR delay0 expo msg opts attempt lastErr st)) st"
proof (induction api maxR delay0 expo msg opts attempt lastErr st rule: apiWithRetryFrom.induct)
  case (1 api maxR delay0 expo msg opts attempt lastErr st)
  show ?case
    using 1 by (subst apiWithRetryFrom.simps)
      (auto simp: Let_def sleep_def sameButTransport_def split: sum.split)
qed

lemma apiWithRetry_frame: "sameButTransport (snd (apiWithRetry api msg opts st)) st"
  unfolding apiWithRetry_def by (rule apiWithRetryFrom_frame)

lemma checkSystemStatus_frame:
  "config (snd (checkSystemStatus api st)) = config st
   \<and> cache (snd (checkSystemStatus api st)) = cache st
   \<and> localRAG (snd (checkSystemStatus api st)) = localRAG st
   \<and> status (snd (checkSystemStatus api st)) = status st
   \<and> lastError (snd (checkSystemStatus api st)) = lastError st
   \<and> clock (snd (checkSystemStatus api st)) = clock st
   \<and> notified (snd (checkSystemStatus api st)) = notified st"
  by (simp add: checkSystemStatus_def Let_def split: option.split sum.split)

lemma checkSystemStatus_maintenance:
  assumes "checkSystemStatus api st = (settings, st1)"
    and "maintenanceMode settings \<or> forceOfflineClients settings"
  shows "systemSettings st1 = Some settings"
  using assms
  by (auto simp: checkSystemStatus_def Let_def defaultSettings_def
           split: option.splits sum.splits if_splits)

section \<open>The fallback path\<close>



lemma fallbackAsk_not_high: "fst (fallbackAsk msg st) = Inr a \<Longrightarrow> confidence a \<noteq> high"
  by (auto simp: fallbackAsk_def Let_def noCacheResponse_def ragFailedResponse_def
        split: sum.splits if_splits)

lemma ask_offline_not_high:
  assumes "fst (ask api msg opts st) = Inr a" and "offline a"
  shows "confidence a \<noteq> high"
proof (cases "msg = []")
  case True
  then show ?thesis using assms by (auto simp: ask_def createErrorResponse_def)
next
  case False
  obtain settings st1 where cs: "checkSystemStatus api st = (settings, st1)"
    by (cases "checkSystemStatus api st")
  obtain r st2 where ar: "apiWithRetry api msg opts st1 = (r, st2)"
    by (cases "apiWithRetry api msg opts st1")
  show ?thesis
  proof (cases r)
    case (Inr resp)
    then show ?thesis
      using False cs ar assms fallbackAsk_not_high
      by (auto simp: ask_def Let_def maintenanceResponse_def split: if_splits)
  next
    case (Inl err)
    then show ?thesis
      using False cs ar assms fallbackAsk_not_high
      by (auto simp: ask_def Let_def maintenanceResponse_def rateLimitResponse_def
            createErrorResponse_def split: if_splits)
  qed
qed

lemma fallbackAsk_alpha:
  "fallbackAsk ''alpha'' alphaClient
     = (Inr \<lparr>reply = ''alpha.'', confidence = medium,
             sources = [\<lparr>src_title = ''FAQ'', snippet = ''alpha...'', relevance = 1,
                         documentId = None\<rparr>],
             offline = True, sessionId = None, retryAfter = None,
             degradedReason = Some ''Processed locally without server''\<rparr>,
        alphaClient\<lparr>status := Offline, notified := [StatusChange Offline],
                     localRAG := rag_index [alphaDoc]\<rparr>)"
  by (simp add: fallbackAsk_def alphaClient_def freshClient_def alphaCache_eq setStatus_def
        getStatus_def retrieve_def retrieveLocalStorage_def isIndexed_def rag_reset_def
        ask_alpha Let_def)


text \<open>
  C2. Every Answer of the fallback path has a confidence among medium, low and none,
  never high; where the search runs (the cache counts a document and the retrieval
  succeeds) the confidence is low when the engine's top score is below 0.3 and medium
  when it is at least 0.3. However \<open>ask\<close> reaches the fallback path, an Answer of \<open>ask\<close>
  that is marked offline never has the confidence high.
\<close>

theorem fallbackAsk_confidence:
  assumes "fst (fallbackAsk msg st) = Inr a"
  shows "confidence a \<in> {medium, low, none} \<and> confidence a \<noteq> high
     \<and> (documentCount (cache st) \<noteq> 0 \<and> retrieve (cache st) = Inr docs
          \<longrightarrow> confidence a
               = (if topScore (rag_ask msg (localRAG (snd (fallbackAsk msg st)))) < 3 / 10
                  then low else medium))
     \<and> (\<forall>api m opts s b. fst (ask api m opts s) = Inr b \<and> offline b \<longrightarrow> confidence b \<noteq> high)"
proof -
  have "confidence a \<in> {medium, low, none} \<and> confidence a \<noteq> high
     \<and> (documentCount (cache st) \<noteq> 0 \<and> retrieve (cache st) = Inr docs
          \<longrightarrow> confidence a
               = (if topScore (rag_ask msg (localRAG (snd (fallbackAsk msg st)))) < 3 / 10
                  then low else medium))"
    using assms
    by (auto simp: fallbackAsk_def Let_def noCacheResponse_def ragFailedResponse_def
        getStatus_def setStatus_cache split: sum.splits if_splits)
  then show ?thesis using ask_offline_not_high by blast
qed

text \<open>The theorem at a cache of one document that matches the question: the search runs,
  the top score is not below 0.3 and the confidence is medium.\<close>

theorem fallbackAsk_confidence_witness:
  "fst (fallbackAsk ''alpha'' alphaClient)
     = Inr \<lparr>reply = ''alpha.'', confidence = medium,
             sources = [\<lparr>src_title = ''FAQ'', snippet = ''alpha...'', relevance = 1,
                         documentId = None\<rparr>],
             offline = True, sessionId = None, retryAfter = None,
             degradedReason = Some ''Processed locally without server''\<rparr>
   \<and> documentCount (cache alphaClient) \<noteq> 0
   \<and> retrieve (cache alphaClient) = Inr [alphaDoc]
   \<and> medium \<in> {medium, low, none}
   \<and> \<not> topScore (rag_ask ''alpha'' (localRAG (snd (fallbackAsk ''alpha'' alphaClient)))) < 3 / 10"
proof -
  have r: "fst (fallbackAsk ''alpha'' alphaClient)
     = Inr \<lparr>reply = ''alpha.'', confidence = medium,
             sources = [\<lparr>src_title = ''FAQ'', snippet = ''alpha...'', relevance = 1,
                         documentId = None\<rparr>],
             offline = True, sessionId = None, retryAfter = None,
             degradedReason = Some ''Processed locally without server''\<rparr>"
    by (simp add: fallbackAsk_alpha)
  have c: "documentCount (cache alphaClient) \<noteq> 0"
    by (simp add: alphaClient_def alphaCache_eq)
  have d: "retrieve (cache alphaClient) = Inr [alphaDoc]"
    by (simp add: alphaClient_def alphaCache_eq retrieve_def retrieveLocalStorage_def)
  from fallbackAsk_confidence [OF r, of "[alphaDoc]"] c d
  have "(if topScore (rag_ask ''alpha'' (localRAG (snd (fallbackAsk ''alpha'' alphaClient)))) < 3 / 10
         then low else medium) = medium"
    by simp
  then have "\<not> topScore (rag_ask ''alpha'' (localRAG (snd (fallbackAsk ''alpha'' alphaClient)))) < 3 / 10"
    by (simp split: if_splits)
  with r c d show ?thesis by simp
qed

section \<open>The retry loop\<close>

lemma attempt_succeeds:
  assumes "int attempt \<le> maxR"
    and "chat api (requests st) msg (chatRequestOf opts) = Inr resp"
  shows "apiWithRetryFrom api maxR delay0 expo msg opts attempt lastErr st
           = (Inr resp, st\<lparr>requests := requests st + 1\<rparr>)"
  using assms by (subst apiWithRetryFrom.simps) simp

lemma attempt_rethrows:
  assumes "int attempt \<le> maxR"
    and "chat api (requests st) msg (chatRequestOf opts) = Inl e"
    and "\<not> retryable e"
  shows "apiWithRetryFrom api maxR delay0 expo msg opts attempt lastErr st
           = (Inl e, st\<lparr>requests := requests st + 1\<rparr>)"
  using assms by (subst apiWithRetryFrom.simps) (auto simp: Let_def retryable_def)

lemma attempt_retries:
  assumes "int attempt < maxR"
    and "chat api (requests st) msg (chatRequestOf opts) = Inl e"
    and "retryable e"
  shows "apiWithRetryFrom api maxR delay0 expo msg opts attempt lastErr st
           = apiWithRetryFrom api maxR delay0 expo msg opts (attempt + 1) (Some e)
               (sleep (if expo then delay0 * 2 ^ attempt else delay0)
                  (st\<lparr>requests := requests st + 1\<rparr>))"
  using assms by (subst apiWithRetryFrom.simps) (auto simp: Let_def retryable_def)


text \<open>
  C5. With \<open>maxRetries = 2\<close> and a transport whose chat call fails twice, with errors of
  a class that is retried, and then succeeds, \<open>apiWithRetry\<close> makes exactly 3 attempts, one
  after the other with the delays of the backoff between them, and returns the result of
  the third. When the first failure is classified \<open>AUTH_ERROR\<close> or \<open>RATE_LIMIT\<close>, exactly
  one attempt is made and the error is thrown again; at whatever attempt of the loop
  such a failure comes, the loop ends there with that error and sends nothing more.
\<close>

theorem apiWithRetry_attempts:
  "(maxRetries (retry (config st)) = 2
      \<and> chat api (requests st) msg (chatRequestOf opts) = Inl e1 \<and> retryable e1
      \<and> chat api (requests st + 1) msg (chatRequestOf opts) = Inl e2 \<and> retryable e2
      \<and> chat api (requests st + 2) msg (chatRequestOf opts) = Inr resp
    \<longrightarrow> fst (apiWithRetry api msg opts st) = Inr resp
        \<and> requests (snd (apiWithRetry api msg opts st)) = requests st + 3
        \<and> clock (snd (apiWithRetry api msg opts st))
            = clock st + int (if exponentialBackoff (retry (config st))
                              then initialDelay (retry (config st)) * 1
                                   + initialDelay (retry (config st)) * 2
                              else initialDelay (retry (config st))
                                   + initialDelay (retry (config st))))
   \<and> (0 \<le> maxRetries (retry (config st))
      \<and> chat api (requests st) msg (chatRequestOf opts) = Inl e
      \<and> (code (normalizeError e) = AUTH_ERROR \<or> code (normalizeError e) = RATE_LIMIT)
    \<longrightarrow> apiWithRetry api msg opts st = (Inl e, st\<lparr>requests := requests st + 1\<rparr>))
   \<and> (int attempt \<le> maxR
      \<and> chat api (requests st) msg (chatRequestOf opts) = Inl e
      \<and> (code (normalizeError e) = AUTH_ERROR \<or> code (normalizeError e) = RATE_LIMIT)
    \<longrightarrow> apiWithRetryFrom api maxR delay0 expo msg opts attempt lastErr st
          = (Inl e, st\<lparr>requests := requests st + 1\<rparr>))"
proof (intro conjI impI)
  assume h: "int attempt \<le> maxR
      \<and> chat api (requests st) msg (chatRequestOf opts) = Inl e
      \<and> (code (normalizeError e) = AUTH_ERROR \<or> code (normalizeError e) = RATE_LIMIT)"
  then have "\<not> retryable e" by (auto simp: retryable_def)
  with h show "apiWithRetryFrom api maxR delay0 expo msg opts attempt lastErr st
          = (Inl e, st\<lparr>requests := requests st + 1\<rparr>)"
    by (intro attempt_rethrows) simp_all
next
  assume h: "0 \<le> maxRetries (retry (config st))
      \<and> chat api (requests st) msg (chatRequestOf opts) = Inl e
      \<and> (code (normalizeError e) = AUTH_ERROR \<or> code (normalizeError e) = RATE_LIMIT)"
  then have "\<not> retryable e" by (auto simp: retryable_def)
  with h show "apiWithRetry api msg opts st = (Inl e, st\<lparr>requests := requests st + 1\<rparr>)"
    unfolding apiWithRetry_def by (intro attempt_rethrows) simp_all
next
  assume h: "maxRetries (retry (config st)) = 2
      \<and> chat api (requests st) msg (chatRequestOf opts) = Inl e1 \<and> retryable e1
      \<and> chat api (requests st + 1) msg (chatRequestOf opts) = Inl e2 \<and> retryable e2
      \<and> chat api (requests st + 2) msg (chatRequestOf opts) = Inr resp"
  define d where "d = initialDelay (retry (config st))"
  define x where "x = exponentialBackoff (retry (config st))"
  define s1 where "s1 = sleep (if x then d * 2 ^ 0 else d) (st\<lparr>requests := requests st + 1\<rparr>)"
  define s2 where "s2 = sleep (if x then d * 2 ^ (0 + 1) else d) (s1\<lparr>requests := requests s1 + 1\<rparr>)"
  have r1: "requests s1 = requests st + 1" by (simp add: s1_def sleep_def)
  have r2: "requests s2 = requests st + 2" by (simp add: s2_def s1_def sleep_def)
  have c2: "clock s2 = clock st + int (if x then d * 1 + d * 2 else d + d)"
    by (simp add: s2_def s1_def sleep_def)
  have step1: "apiWithRetryFrom api 2 d x msg opts 0 None st
                 = apiWithRetryFrom api 2 d x msg opts (0 + 1) (Some e1) s1"
    unfolding s1_def using h by (intro attempt_retries) simp_all
  have step2: "apiWithRetryFrom api 2 d x msg opts (0 + 1) (Some e1) s1
                 = apiWithRetryFrom api 2 d x msg opts (0 + 1 + 1) (Some e2) s2"
    unfolding s2_def using h r1 by (intro attempt_retries) simp_all
  have step3: "apiWithRetryFrom api 2 d x msg opts (0 + 1 + 1) (Some e2) s2
                 = (Inr resp, s2\<lparr>requests := requests s2 + 1\<rparr>)"
    using h r2 by (intro attempt_succeeds) simp_all
  have all: "apiWithRetry api msg opts st = (Inr resp, s2\<lparr>requests := requests s2 + 1\<rparr>)"
    using h step1 step2 step3 by (simp only: apiWithRetry_def d_def x_def)
  show "fst (apiWithRetry api msg opts st) = Inr resp" using all by simp
  show "requests (snd (apiWithRetry api msg opts st)) = requests st + 3"
    using all r2 by simp
  show "clock (snd (apiWithRetry api msg opts st))
            = clock st + int (if exponentialBackoff (retry (config st))
                              then initialDelay (retry (config st)) * 1
                                   + initialDelay (retry (config st)) * 2
                              else initialDelay (retry (config st))
                                   + initialDelay (retry (config st)))"
    using all c2 by (simp add: d_def x_def)
qed


text \<open>The theorem at the transports of the test suite: two network errors and a success,
  a transport that answers 401, and one that answers with a rate limit.\<close>

theorem apiWithRetry_attempts_witness:
  "fst (apiWithRetry flakyApi ''Hello'' None freshClient) = Inr successResponse
   \<and> requests (snd (apiWithRetry flakyApi ''Hello'' None freshClient)) = 3
   \<and> clock (snd (apiWithRetry flakyApi ''Hello'' None freshClient)) = 1003000
   \<and> apiWithRetry unauthorizedApi ''Hello'' None freshClient
        = (Inl (Error ''401 Unauthorized''), freshClient\<lparr>requests := 1\<rparr>)
   \<and> apiWithRetry rateLimitedApi ''Hello'' None freshClient
        = (Inl (Error ''Rate limit exceeded, retry after 30''), freshClient\<lparr>requests := 1\<rparr>)
   \<and> apiWithRetryFrom unauthorizedApi 2 1000 True ''Hello'' None 1 None
          (freshClient\<lparr>requests := 1\<rparr>)
        = (Inl (Error ''401 Unauthorized''), freshClient\<lparr>requests := 2\<rparr>)"
proof -
  have rt: "retryable (Error ''Network error'')"
    by (simp add: retryable_def normalize_network)
  have a: "fst (apiWithRetry flakyApi ''Hello'' None freshClient) = Inr successResponse
   \<and> requests (snd (apiWithRetry flakyApi ''Hello'' None freshClient)) = requests freshClient + 3
   \<and> clock (snd (apiWithRetry flakyApi ''Hello'' None freshClient))
      = clock freshClient + int (if exponentialBackoff (retry (config freshClient))
                              then initialDelay (retry (config freshClient)) * 1
                                   + initialDelay (retry (config freshClient)) * 2
                              else initialDelay (retry (config freshClient))
                                   + initialDelay (retry (config freshClient)))"
    using apiWithRetry_attempts [where st = freshClient and api = flakyApi and msg = "''Hello''"
        and opts = None and ?e1.0 = "Error ''Network error''" and ?e2.0 = "Error ''Network error''"
        and resp = successResponse] rt
    by (simp add: flakyApi_def freshClient_def)
  have b: "apiWithRetry unauthorizedApi ''Hello'' None freshClient
        = (Inl (Error ''401 Unauthorized''), freshClient\<lparr>requests := requests freshClient + 1\<rparr>)"
    using apiWithRetry_attempts [where st = freshClient and api = unauthorizedApi
        and msg = "''Hello''" and opts = None and e = "Error ''401 Unauthorized''"]
      normalize_unauthorized
    by (simp add: unauthorizedApi_def freshClient_def)
  have c: "apiWithRetry rateLimitedApi ''Hello'' None freshClient
        = (Inl (Error ''Rate limit exceeded, retry after 30''),
           freshClient\<lparr>requests := requests freshClient + 1\<rparr>)"
    using apiWithRetry_attempts [where st = freshClient and api = rateLimitedApi
        and msg = "''Hello''" and opts = None and e = "Error ''Rate limit exceeded, retry after 30''"]
      normalize_rate_limit
    by (simp add: rateLimitedApi_def freshClient_def)
  have d: "apiWithRetryFrom unauthorizedApi 2 1000 True ''Hello'' None 1 None
          (freshClient\<lparr>requests := 1\<rparr>)
        = (Inl (Error ''401 Unauthorized''),
           freshClient\<lparr>requests := 1\<rparr>\<lparr>requests := requests (freshClient\<lparr>requests := 1\<rparr>) + 1\<rparr>)"
    using apiWithRetry_attempts [where st = "freshClient\<lparr>requests := 1\<rparr>"
        and api = unauthorizedApi and msg = "''Hello''" and opts = None
        and e = "Error ''401 Unauthorized''" and attempt = 1 and maxR = 2 and ?delay0.0 = 1000
        and expo = True and lastErr = None]
      normalize_unauthorized
    by (simp add: unauthorizedApi_def)
  show ?thesis using a b c d by (simp add: freshClient_def)
qed

section \<open>The primary operation\<close>











lemma check_maintenance_fresh:
  "checkSystemStatus maintenanceApi freshClient
     = (\<lparr>cacheRetentionHours = 168, maintenanceMode = True,
         maintenanceMessage = Some ''Back in 2 hours!'', forceOfflineClients = False\<rparr>,
        freshClient\<lparr>requests := 1,
           systemSettings := Some \<lparr>cacheRetentionHours = 168, maintenanceMode = True,
              maintenanceMessage = Some ''Back in 2 hours!'', forceOfflineClients = False\<rparr>,
           settingsLastChecked := 1000000\<rparr>)"
  by (simp add: checkSystemStatus_def maintenanceApi_def freshClient_def settingsOf_def)


text \<open>
  C4 (as amended). When the settings have \<open>maintenanceMode\<close> or \<open>forceOfflineClients\<close> set
  and the cache has no last-sync time, or one that is as old as the retention window of
  the settings (168 hours when the settings give 0), \<open>ask\<close> returns the fixed maintenance
  Answer: offline true, confidence none, the maintenance message of the server when it
  is there and not empty, the generic notice otherwise. The client is left as the check
  of the settings left it: no chat request is sent, and the status, the search engine
  and the observers are untouched. The number of cached documents plays no part.
\<close>

theorem ask_maintenance_no_valid_cache:
  assumes msg: "msg \<noteq> []"
    and cs: "checkSystemStatus api st = (settings, st1)"
    and mm: "maintenanceMode settings \<or> forceOfflineClients settings"
    and nv: "lastSyncAt (cache st) = None
             \<or> (\<exists>t. lastSyncAt (cache st) = Some t
                    \<and> (if cacheRetentionHours settings = 0 then 168 else cacheRetentionHours settings)
                         * 3600000 \<le> clock st - t)"
  shows "ask api msg opts st
     = (Inr \<lparr>reply = (case maintenanceMessage settings of
                        None \<Rightarrow> ''The service is currently under maintenance. Please try again later.''
                      | Some m \<Rightarrow>
                          if m = [] then ''The service is currently under maintenance. Please try again later.''
                          else m),
             confidence = none, sources = [], offline = True, sessionId = None,
             retryAfter = None,
             degradedReason = Some ''Maintenance mode active, no valid cache available''\<rparr>, st1)
     \<and> status st1 = status st \<and> localRAG st1 = localRAG st \<and> notified st1 = notified st
     \<and> requests st1 \<le> requests st + 1"
proof -
  have ss: "systemSettings st1 = Some settings"
    using checkSystemStatus_maintenance [OF cs mm] .
  have f1: "status st1 = status st" "localRAG st1 = localRAG st" "notified st1 = notified st"
    "cache st1 = cache st" "clock st1 = clock st"
    using checkSystemStatus_frame [of api st] cs by simp_all
  have rq: "requests st1 \<le> requests st + 1"
    using cs by (auto simp: checkSystemStatus_def Let_def split: option.splits sum.splits if_splits)
  have "\<not> isCacheValid st1"
    using nv ss f1 by (auto simp: isCacheValid_def getStatus_def Let_def)
  then have "ask api msg opts st = (Inr (maintenanceResponse settings), st1)"
    using msg cs mm by (simp add: ask_def Let_def)
  then show ?thesis
    using f1 rq by (simp add: maintenanceResponse_def)
qed


text \<open>The theorem at a server in maintenance with a message, for a new client with an
  empty cache and for a client whose one cached document was synced 168 hours ago.\<close>

theorem ask_maintenance_no_valid_cache_witness:
  "fst (ask maintenanceApi ''Hello'' None freshClient)
     = Inr \<lparr>reply = ''Back in 2 hours!'', confidence = none, sources = [], offline = True,
            sessionId = None, retryAfter = None,
            degradedReason = Some ''Maintenance mode active, no valid cache available''\<rparr>
   \<and> requests (snd (ask maintenanceApi ''Hello'' None freshClient)) = 1
   \<and> documentCount (cache outdatedClient) = 1
   \<and> lastSyncAt (cache outdatedClient) = Some 999000
   \<and> clock outdatedClient - 999000 = 168 * 3600000
   \<and> fst (ask maintenanceApi ''Hello'' None outdatedClient)
     = Inr \<lparr>reply = ''Back in 2 hours!'', confidence = none, sources = [], offline = True,
            sessionId = None, retryAfter = None,
            degradedReason = Some ''Maintenance mode active, no valid cache available''\<rparr>"
proof -
  let ?s = "\<lparr>cacheRetentionHours = 168, maintenanceMode = True,
         maintenanceMessage = Some ''Back in 2 hours!'', forceOfflineClients = False\<rparr>"
  have msg: "''Hello'' \<noteq> []" by simp
  have mm: "maintenanceMode ?s \<or> forceOfflineClients ?s" by simp
  have nv: "lastSyncAt (cache freshClient) = None \<or> (\<exists>t. lastSyncAt (cache freshClient) = Some t
     \<and> (if cacheRetentionHours ?s = 0 then 168 else cacheRetentionHours ?s) * 3600000
         \<le> clock freshClient - t)"
    by (simp add: freshClient_def emptyCache_def)
  have fresh: "fst (ask maintenanceApi ''Hello'' None freshClient)
     = Inr \<lparr>reply = ''Back in 2 hours!'', confidence = none, sources = [], offline = True,
            sessionId = None, retryAfter = None,
            degradedReason = Some ''Maintenance mode active, no valid cache available''\<rparr>
   \<and> requests (snd (ask maintenanceApi ''Hello'' None freshClient)) = 1"
    using ask_maintenance_no_valid_cache [OF msg check_maintenance_fresh mm nv] by simp
  have old: "documentCount (cache outdatedClient) = 1"
    "lastSyncAt (cache outdatedClient) = Some 999000"
    "clock outdatedClient - 999000 = 168 * 3600000"
    by (simp_all add: outdatedClient_def alphaClient_def alphaCache_eq)
  have cs: "checkSystemStatus maintenanceApi outdatedClient
     = (?s, outdatedClient\<lparr>requests := 1, systemSettings := Some ?s,
                           settingsLastChecked := 999000 + 168 * 3600000\<rparr>)"
    by (simp add: checkSystemStatus_def maintenanceApi_def outdatedClient_def alphaClient_def
          freshClient_def settingsOf_def)
  have nv': "lastSyncAt (cache outdatedClient) = None
     \<or> (\<exists>t. lastSyncAt (cache outdatedClient) = Some t
     \<and> (if cacheRetentionHours ?s = 0 then 168 else cacheRetentionHours ?s) * 3600000
         \<le> clock outdatedClient - t)"
    using old by simp
  have outdated: "fst (ask maintenanceApi ''Hello'' None outdatedClient)
     = Inr \<lparr>reply = ''Back in 2 hours!'', confidence = none, sources = [], offline = True,
            sessionId = None, retryAfter = None,
            degradedReason = Some ''Maintenance mode active, no valid cache available''\<rparr>"
    using ask_maintenance_no_valid_cache [OF msg cs mm nv'] by simp
  show ?thesis using fresh old outdated by simp
qed


text \<open>
  C4 as the specification states it fails on a cache that is empty and not stale (a sync
  that stored no document, one second ago): such a cache is no "non-stale, non-empty"
  cache, and yet \<open>ask\<close> takes the fallback path and answers "no cached information"
  in place of the maintenance Answer.
\<close>

theorem maintenance_empty_cache_counterexample:
  "documentCount (cache emptySyncedClient) = 0
   \<and> maintenanceMode (fst (checkSystemStatus maintenanceApi emptySyncedClient))
   \<and> fst (ask maintenanceApi ''Hello'' None emptySyncedClient) = Inr noCacheResponse
   \<and> noCacheResponse \<noteq> maintenanceResponse (fst (checkSystemStatus maintenanceApi emptySyncedClient))"
proof -
  have cs: "checkSystemStatus maintenanceApi emptySyncedClient
     = (\<lparr>cacheRetentionHours = 168, maintenanceMode = True,
         maintenanceMessage = Some ''Back in 2 hours!'', forceOfflineClients = False\<rparr>,
        emptySyncedClient\<lparr>requests := 1,
           systemSettings := Some \<lparr>cacheRetentionHours = 168, maintenanceMode = True,
              maintenanceMessage = Some ''Back in 2 hours!'', forceOfflineClients = False\<rparr>,
           settingsLastChecked := 1000000\<rparr>)"
    by (simp add: checkSystemStatus_def maintenanceApi_def emptySyncedClient_def freshClient_def settingsOf_def)
  have valid: "isCacheValid (emptySyncedClient\<lparr>requests := 1,
           systemSettings := Some \<lparr>cacheRetentionHours = 168, maintenanceMode = True,
              maintenanceMessage = Some ''Back in 2 hours!'', forceOfflineClients = False\<rparr>,
           settingsLastChecked := 1000000\<rparr>)"
    by (simp add: isCacheValid_def getStatus_def emptySynced_cache Let_def)
       (simp add: emptySyncedClient_def freshClient_def)
  have fb: "fst (fallbackAsk ''Hello'' (emptySyncedClient\<lparr>requests := 1,
           systemSettings := Some \<lparr>cacheRetentionHours = 168, maintenanceMode = True,
              maintenanceMessage = Some ''Back in 2 hours!'', forceOfflineClients = False\<rparr>,
           settingsLastChecked := 1000000\<rparr>)) = Inr noCacheResponse"
    by (simp add: fallbackAsk_def Let_def getStatus_def setStatus_cache emptySynced_cache)
  have "fst (ask maintenanceApi ''Hello'' None emptySyncedClient) = Inr noCacheResponse"
    using cs valid fb by (simp add: ask_def Let_def)
  then show ?thesis
    using cs by (simp add: emptySynced_cache noCacheResponse_def maintenanceResponse_def)
qed


lemma ask_cache: "cache (snd (ask api msg opts st)) = cache st"
proof (cases "msg = []")
  case True
  then show ?thesis by (simp add: ask_def)
next
  case False
  obtain settings st1 where cs: "checkSystemStatus api st = (settings, st1)"
    by (cases "checkSystemStatus api st")
  obtain r st2 where ar: "apiWithRetry api msg opts st1 = (r, st2)"
    by (cases "apiWithRetry api msg opts st1")
  have c1: "cache st1 = cache st" using checkSystemStatus_cache [of api st] cs by simp
  have c2: "cache st2 = cache st1" using apiWithRetry_cache [of api msg opts st1] ar by simp
  show ?thesis
    using False cs ar c1 c2
    by (cases r) (simp_all add: ask_def Let_def fallbackAsk_cache setStatus_cache)
qed

text \<open>
  C10. No call of \<open>ask\<close>, the fallback path included, writes to the document cache: the
  cache after the call is the cache before it, with the same stored documents, the same
  document count and the same last sync. The same holds for the check of the settings
  and for the retry loop; of the operations modelled, only \<open>syncCache\<close> and \<open>clearCache\<close>
  change the cache.
\<close>

theorem ask_writes_no_cache:
  "cache (snd (ask api msg opts st)) = cache st
   \<and> retrieve (cache (snd (ask api msg opts st))) = retrieve (cache st)
   \<and> documentCount (cache (snd (ask api msg opts st))) = documentCount (cache st)
   \<and> lastSyncAt (cache (snd (ask api msg opts st))) = lastSyncAt (cache st)
   \<and> cache (snd (fallbackAsk msg st)) = cache st
   \<and> cache (snd (checkSystemStatus api st)) = cache st
   \<and> cache (snd (apiWithRetry api msg opts st)) = cache st"
  by (simp add: ask_cache fallbackAsk_cache checkSystemStatus_cache apiWithRetry_cache)

section \<open>Clearing the cache\<close>

lemma fallbackAsk_empty:
  assumes "documentCount (cache st) = 0"
  shows "fallbackAsk msg st = (Inr noCacheResponse, setStatus Offline st)"
  using assms by (simp add: fallbackAsk_def Let_def getStatus_def setStatus_cache)

lemma setStatus_localRAG: "localRAG (setStatus s st) = localRAG st"
  by (simp add: setStatus_def)

lemma ask_localRAG_empty:
  assumes "documentCount (cache st) = 0"
  shows "localRAG (snd (ask api msg opts st)) = localRAG st"
proof (cases "msg = []")
  case True
  then show ?thesis by (simp add: ask_def)
next
  case False
  obtain settings st1 where cs: "checkSystemStatus api st = (settings, st1)"
    by (cases "checkSystemStatus api st")
  obtain r st2 where ar: "apiWithRetry api msg opts st1 = (r, st2)"
    by (cases "apiWithRetry api msg opts st1")
  have c1: "cache st1 = cache st" "localRAG st1 = localRAG st"
    using checkSystemStatus_frame [of api st] cs by simp_all
  have c2: "cache st2 = cache st1" "localRAG st2 = localRAG st1"
    using apiWithRetry_frame [of api msg opts st1] ar by (simp_all add: sameButTransport_def)
  have e1: "documentCount (cache st1) = 0" using assms c1 by simp
  have e2: "documentCount (cache (st2\<lparr>lastError := le, notified := nt\<rparr>)) = 0" for le nt
    using assms c1 c2 by simp
  show ?thesis
    using False cs ar c1 c2 fallbackAsk_empty [OF e1] fallbackAsk_empty [OF e2]
    by (cases r) (simp_all add: ask_def Let_def setStatus_localRAG)
qed


text \<open>
  C9. \<open>clearCache\<close> completes in the \<^verbatim>\<open>localStorage\<close> mode and whenever the database is
  there. Once it has completed, the cache reports a document count of 0 and no last
  sync, the search engine is not indexed, and a fallback request gets the fixed
  "no cached information" Answer; all of this still holds after a call of \<open>ask\<close>, which
  does not sync.
\<close>

theorem clearCache_resets:
  "(storage (cache st) = localstorage \<or> db (cache st) \<noteq> None \<longrightarrow> fst (clearCache st) = Inr ())
   \<and> (fst (clearCache st) = Inr () \<longrightarrow>
        documentCount (cache (snd (clearCache st))) = 0
        \<and> lastSyncAt (cache (snd (clearCache st))) = None
        \<and> cs_documentCount (getStatus now (cache (snd (clearCache st)))) = 0
        \<and> cs_lastSyncAt (getStatus now (cache (snd (clearCache st)))) = None
        \<and> \<not> isIndexed (localRAG (snd (clearCache st)))
        \<and> fst (fallbackAsk msg (snd (clearCache st))) = Inr noCacheResponse
        \<and> documentCount (cache (snd (ask api msg' opts (snd (clearCache st))))) = 0
        \<and> \<not> isIndexed (localRAG (snd (ask api msg' opts (snd (clearCache st)))))
        \<and> fst (fallbackAsk msg (snd (ask api msg' opts (snd (clearCache st))))) = Inr noCacheResponse)"
proof (intro conjI impI)
  assume "storage (cache st) = localstorage \<or> db (cache st) \<noteq> None"
  then show "fst (clearCache st) = Inr ()"
    by (auto simp: clearCache_def clear_def getDB_def split: option.splits)
next
  assume ok: "fst (clearCache st) = Inr ()"
  define st' where "st' = snd (clearCache st)"
  have cnt: "documentCount (cache st') = 0" and syn: "lastSyncAt (cache st') = None"
    and rag: "localRAG st' = rag_reset"
    using ok unfolding st'_def
    by (auto simp: clearCache_def clear_def getDB_def split: if_splits option.splits)
  have ni: "\<not> isIndexed (localRAG st')" using rag by (simp add: isIndexed_def rag_reset_def)
  have cnt2: "documentCount (cache (snd (ask api msg' opts st'))) = 0"
    using cnt by (simp add: ask_cache)
  have ni2: "\<not> isIndexed (localRAG (snd (ask api msg' opts st')))"
    using ni ask_localRAG_empty [OF cnt] by simp
  show "documentCount (cache (snd (clearCache st))) = 0" using cnt by (simp add: st'_def)
  show "lastSyncAt (cache (snd (clearCache st))) = None" using syn by (simp add: st'_def)
  show "cs_documentCount (getStatus now (cache (snd (clearCache st)))) = 0"
    using cnt by (simp add: st'_def getStatus_def)
  show "cs_lastSyncAt (getStatus now (cache (snd (clearCache st)))) = None"
    using syn by (simp add: st'_def getStatus_def)
  show "\<not> isIndexed (localRAG (snd (clearCache st)))" using ni by (simp add: st'_def)
  show "fst (fallbackAsk msg (snd (clearCache st))) = Inr noCacheResponse"
    using fallbackAsk_empty [OF cnt] by (simp add: st'_def)
  show "documentCount (cache (snd (ask api msg' opts (snd (clearCache st))))) = 0"
    using cnt2 by (simp add: st'_def)
  show "\<not> isIndexed (localRAG (snd (ask api msg' opts (snd (clearCache st)))))"
    using ni2 by (simp add: st'_def)
  show "fst (fallbackAsk msg (snd (ask api msg' opts (snd (clearCache st))))) = Inr noCacheResponse"
    using fallbackAsk_empty [OF cnt2] by (simp add: st'_def)
qed


text \<open>The theorem at a client with one cached and indexed document.\<close>

theorem clearCache_resets_witness:
  "storage (cache (alphaClient\<lparr>localRAG := rag_index [alphaDoc]\<rparr>)) = localstorage
   \<and> documentCount (cache (alphaClient\<lparr>localRAG := rag_index [alphaDoc]\<rparr>)) = 1
   \<and> isIndexed (localRAG (alphaClient\<lparr>localRAG := rag_index [alphaDoc]\<rparr>))
   \<and> fst (clearCache (alphaClient\<lparr>localRAG := rag_index [alphaDoc]\<rparr>)) = Inr ()
   \<and> documentCount (cache (snd (clearCache (alphaClient\<lparr>localRAG := rag_index [alphaDoc]\<rparr>)))) = 0
   \<and> \<not> isIndexed (localRAG (snd (clearCache (alphaClient\<lparr>localRAG := rag_index [alphaDoc]\<rparr>))))
   \<and> fst (fallbackAsk ''alpha'' (snd (clearCache (alphaClient\<lparr>localRAG := rag_index [alphaDoc]\<rparr>))))
        = Inr noCacheResponse"
proof -
  let ?st = "alphaClient\<lparr>localRAG := rag_index [alphaDoc]\<rparr>"
  have s: "storage (cache ?st) = localstorage" by (simp add: alphaClient_def alphaCache_eq)
  have n: "documentCount (cache ?st) = 1" by (simp add: alphaClient_def alphaCache_eq)
  have i: "isIndexed (localRAG ?st)" by (simp add: isIndexed_def index_alpha)
  note t = clearCache_resets [of ?st 0 "''alpha''" rateLimitedApi "''alpha''" None]
  from t s have ok: "fst (clearCache ?st) = Inr ()" by blast
  with t have "documentCount (cache (snd (clearCache ?st))) = 0
     \<and> \<not> isIndexed (localRAG (snd (clearCache ?st)))
     \<and> fst (fallbackAsk ''alpha'' (snd (clearCache ?st))) = Inr noCacheResponse"
    by blast
  with s n i ok show ?thesis by simp
qed

end
